theory Spec2Isabelle
  imports Main
begin

section \<open>Values of the mapping file\<close>

text \<open>
  The tool \<^verbatim>\<open>tools/shortlink-cli.mjs\<close> keeps its records in one JSON file. What it holds in
  memory is whatever \<^verbatim>\<open>JSON.parse\<close> returned, so a record is a JSON value. An object is the
  list of its own properties in enumeration order (keys distinct). Strings are lists of
  code units; the 8-bit \<^typ>\<open>char\<close> of HOL covers the code units below 256. No operation of
  the tool looks inside a number: \<open>JNum\<close> carries the number's canonical decimal rendering,
  the text \<^verbatim>\<open>String(x)\<close> of the number \<^verbatim>\<open>x\<close>. For a finite number that is a JSON number
  literal; the other renderings are \<^verbatim>\<open>Infinity\<close>, \<^verbatim>\<open>-Infinity\<close> and \<^verbatim>\<open>NaN\<close>. Negative zero, which
  \<^verbatim>\<open>String\<close> renders as zero, is told apart from zero here: it is \<open>JNum ''-0''\<close>.
\<close>

datatype json =
    JNull
  | JBool bool
  | JNum string
  | JStr string
  | JArr "json list"
  | JObj "(string \<times> json) list"

text \<open>
  An option parsed from the command line is \<^verbatim>\<open>true\<close> (a bare \<^verbatim>\<open>--flag\<close>) or a string
  (\<^verbatim>\<open>--key value\<close>); an option that was not given is \<^verbatim>\<open>undefined\<close>, here \<open>None\<close>.
\<close>

datatype optval = OTrue | OStr string

type_synonym opts = "string \<rightharpoonup> optval"

text \<open>
  The errors the tool throws. The source throws \<^verbatim>\<open>Error\<close> objects with Chinese messages;
  each message is a constructor here, its interpolated parts the arguments:
  \<^item> \<open>ParseError file cause\<close>: "cannot parse <file>: <cause>", the cause being the message
    of \<^verbatim>\<open>JSON.parse\<close>'s SyntaxError or "mappings.json must be an array";
  \<^item> \<open>InvalidInput UrlMissing\<close>: "the add command needs --url";
  \<^item> \<open>InvalidInput UrlMalformed\<close>: "illegal URL, include the protocol";
  \<^item> \<open>InvalidInput CodeMalformed\<close>: "a short code has digits, letters, underscore, hyphen only";
  \<^item> \<open>InvalidInput CodeMissing\<close>: "the remove command needs --code";
  \<^item> \<open>DuplicateCode c\<close>: "short code <c> exists already, use --replace to overwrite";
  \<^item> \<open>GenerationExhausted\<close>: "cannot generate a unique short code, give --code by hand";
  \<^item> \<open>TypeError\<close>: a TypeError of the JavaScript runtime.
\<close>

datatype cause = SyntaxError string | NotAnArray

datatype reason = UrlMissing | UrlMalformed | CodeMalformed | CodeMissing

datatype error =
    ParseError string cause
  | InvalidInput reason
  | DuplicateCode string
  | GenerationExhausted
  | TypeError

subsection \<open>JavaScript primitives the tool uses\<close>

text \<open>Truthiness of an option: \<^verbatim>\<open>undefined\<close> and the empty string are falsy.\<close>

fun truthy :: "optval option \<Rightarrow> bool" where
  "truthy None = False"
| "truthy (Some OTrue) = True"
| "truthy (Some (OStr s)) = (s \<noteq> [])"

text \<open>\<^verbatim>\<open>String(v)\<close>, as template literals, \<^verbatim>\<open>RegExp.test\<close> and \<^verbatim>\<open>new URL\<close> apply it.\<close>

fun to_string :: "optval \<Rightarrow> string" where
  "to_string OTrue = ''true''"
| "to_string (OStr s) = s"

fun json_of :: "optval \<Rightarrow> json" where
  "json_of OTrue = JBool True"
| "json_of (OStr s) = JStr s"

text \<open>
  \<^verbatim>\<open>item.code\<close>: reading a property of \<^verbatim>\<open>null\<close> throws a TypeError; an object yields its
  own property or \<^verbatim>\<open>undefined\<close> (\<open>None\<close>); strings, numbers, booleans and arrays have no
  property of that name.
\<close>

fun get_code :: "json \<Rightarrow> error + json option" where
  "get_code JNull = Inl TypeError"
| "get_code (JObj kvs) = Inr (map_of kvs ''code'')"
| "get_code _ = Inr None"

text \<open>\<^verbatim>\<open>String.prototype.trim\<close>: white space and line terminators, among the code units below 256.\<close>

definition js_space :: "char \<Rightarrow> bool" where
  "js_space c = (c \<in> set [CHR 0x09, CHR 0x0A, CHR 0x0B, CHR 0x0C, CHR 0x0D, CHR 0x20, CHR 0xA0])"

definition trim :: "string \<Rightarrow> string" where
  "trim s = rev (dropWhile js_space (rev (dropWhile js_space s)))"

text \<open>\<^verbatim>\<open>s.split(sep)\<close> for a separator of one character; \<^verbatim>\<open>''.split(sep)\<close> is \<^verbatim>\<open>['']\<close>.\<close>

fun split :: "char \<Rightarrow> string \<Rightarrow> string list" where
  "split sep [] = [[]]"
| "split sep (c # cs) =
     (if c = sep then [] # split sep cs
      else (case split sep cs of [] \<Rightarrow> [[c]] | p # ps \<Rightarrow> (c # p) # ps))"

text \<open>\<^verbatim>\<open>parts.join(sep)\<close>.\<close>

fun join :: "char \<Rightarrow> string list \<Rightarrow> string" where
  "join sep [] = []"
| "join sep [p] = p"
| "join sep (p # q # ps) = p @ sep # join sep (q # ps)"

text \<open>The character class of \<^verbatim>\<open>/^[0-9A-Za-z_-]+$/\<close>.\<close>

definition code_char :: "char \<Rightarrow> bool" where
  "code_char c =
     (let n = (of_char c :: nat)
      in (48 \<le> n \<and> n \<le> 57) \<or> (65 \<le> n \<and> n \<le> 90) \<or> (97 \<le> n \<and> n \<le> 122)
         \<or> c = CHR ''_'' \<or> c = CHR ''-'')"

definition code_regex :: "string \<Rightarrow> bool" where
  "code_regex s = (s \<noteq> [] \<and> list_all code_char s)"

section \<open>The code generator\<close>

definition base62 :: string where
  "base62 = ''0123456789abcdefghijklmnopqrstuvwxyzABCDEFGHIJKLMNOPQRSTUVWXYZ''"

definition base62Safe :: string where
  "base62Safe = ''23456789abcdefghijkmnpqrstuvwxyzABCDEFGHJKLMNPQRSTUVWXYZ''"

definition CODE_MIN_LEN :: nat where
  "CODE_MIN_LEN = 5"

definition AVOID_AMBIGUOUS :: bool where
  "AVOID_AMBIGUOUS = True"

text \<open>
  \<^verbatim>\<open>Math.random\<close> is the only source of randomness. The process's draws are a function
  \<open>rnd\<close>: its \<open>k\<close>-th call to \<^verbatim>\<open>Math.floor(Math.random()*n)\<close> yields the index
  \<open>rnd k mod n\<close>; the distribution is not modelled. \<open>randCode\<close> returns the code and the
  number of draws made so far.
\<close>

fun randCode_loop :: "string \<Rightarrow> (nat \<Rightarrow> nat) \<Rightarrow> nat \<Rightarrow> nat \<Rightarrow> string \<Rightarrow> string \<times> nat" where
  "randCode_loop chars rnd 0 k s = (s, k)"
| "randCode_loop chars rnd (Suc n) k s =
     randCode_loop chars rnd n (Suc k) (s @ [chars ! (rnd k mod length chars)])"

definition randCode :: "(nat \<Rightarrow> nat) \<Rightarrow> nat \<Rightarrow> nat \<Rightarrow> bool \<Rightarrow> string \<times> nat" where
  "randCode rnd k len safe =
     (let chars = (if safe then base62Safe else base62)
      in randCode_loop chars rnd len k [])"

text \<open>\<^verbatim>\<open>existing.map(item=>item.code)\<close>: the first \<^verbatim>\<open>null\<close> item throws.\<close>

fun map_code :: "json list \<Rightarrow> error + json option list" where
  "map_code [] = Inr []"
| "map_code (item # items) =
     (case get_code item of
        Inl e \<Rightarrow> Inl e
      | Inr c \<Rightarrow> (case map_code items of Inl e \<Rightarrow> Inl e | Inr cs \<Rightarrow> Inr (c # cs)))"

text \<open>The loop of \<open>getRandomCode\<close>, \<open>n\<close> attempts left, \<open>k\<close> draws made.\<close>

fun getRandomCode_loop :: "(nat \<Rightarrow> nat) \<Rightarrow> json option set \<Rightarrow> nat \<Rightarrow> nat \<Rightarrow> nat \<Rightarrow> error + string" where
  "getRandomCode_loop rnd used len 0 k = Inl GenerationExhausted"
| "getRandomCode_loop rnd used len (Suc n) k =
     (case randCode rnd k len AVOID_AMBIGUOUS of
        (code, k') \<Rightarrow>
          if Some (JStr code) \<notin> used then Inr code
          else getRandomCode_loop rnd used len n k')"

definition getRandomCode :: "(nat \<Rightarrow> nat) \<Rightarrow> json list \<Rightarrow> error + string" where
  "getRandomCode rnd existing =
     (let len = max CODE_MIN_LEN 4
      in case map_code existing of
           Inl e \<Rightarrow> Inl e
         | Inr cs \<Rightarrow> getRandomCode_loop rnd (set cs) len 10000 0)"

section \<open>The platform\<close>

text \<open>
  What the tool takes from Node.js and does not implement itself: \<^verbatim>\<open>JSON.parse\<close> (\<open>Inl\<close>
  the message of its SyntaxError), \<^verbatim>\<open>JSON.stringify(data,null,2)\<close>, whether \<^verbatim>\<open>new URL(u)\<close>
  accepts a string, the hex SHA-256 digest, \<^verbatim>\<open>path.resolve\<close>, the default file path, the
  clock's \<^verbatim>\<open>new Date().toISOString()\<close> and the draws of \<^verbatim>\<open>Math.random\<close>. The file system
  maps the path of a readable text file to its decoded content; directories, permissions
  and write failures are not modelled.
\<close>

record platform =
  JSON_parse :: "string \<Rightarrow> string + json"
  JSON_stringify :: "json \<Rightarrow> string"
  URL_parses :: "string \<Rightarrow> bool"
  sha256_hex :: "string \<Rightarrow> string"
  path_resolve :: "string \<Rightarrow> string"
  DEFAULT_FILE :: string
  now_iso :: string
  Math_random :: "nat \<Rightarrow> nat"

type_synonym files = "string \<rightharpoonup> string"

text \<open>Sequencing of steps that may throw.\<close>

definition and_then :: "'e + 'a \<Rightarrow> ('a \<Rightarrow> 'e + 'b) \<Rightarrow> 'e + 'b" where
  "and_then m f = (case m of Inl e \<Rightarrow> Inl e | Inr x \<Rightarrow> f x)"

section \<open>The mapping store\<close>

text \<open>
  \<open>loadMappings\<close>: the body of the \<^verbatim>\<open>try\<close> block yields the parsed array or a cause; the
  \<^verbatim>\<open>catch\<close> clause wraps every cause into the error that names the file.
\<close>

definition loadMappings :: "platform \<Rightarrow> files \<Rightarrow> string \<Rightarrow> error + json list" where
  "loadMappings P fs file =
     (case fs file of
        None \<Rightarrow> Inr []
      | Some raw \<Rightarrow>
          if trim raw = [] then Inr []
          else (case (case JSON_parse P raw of
                        Inl msg \<Rightarrow> Inl (SyntaxError msg)
                      | Inr (JArr items) \<Rightarrow> Inr items
                      | Inr _ \<Rightarrow> Inl NotAnArray) of
                  Inl c \<Rightarrow> Inl (ParseError file c)
                | Inr items \<Rightarrow> Inr items))"

definition saveMappings :: "platform \<Rightarrow> files \<Rightarrow> string \<Rightarrow> json list \<Rightarrow> files" where
  "saveMappings P fs file data = fs(file \<mapsto> JSON_stringify P (JArr data) @ [CHR 0x0A])"

section \<open>The operations\<close>

text \<open>\<^verbatim>\<open>data.some(item=>item.code===code)\<close>; \<open>code\<close> is a string or \<^verbatim>\<open>true\<close>.\<close>

fun some_code :: "json \<Rightarrow> json list \<Rightarrow> error + bool" where
  "some_code c [] = Inr False"
| "some_code c (item # items) =
     (case get_code item of
        Inl e \<Rightarrow> Inl e
      | Inr v \<Rightarrow> if v = Some c then Inr True else some_code c items)"

definition ensureUnique :: "optval \<Rightarrow> json list \<Rightarrow> error + unit" where
  "ensureUnique code data =
     and_then (some_code (json_of code) data)
       (\<lambda>found. if found then Inl (DuplicateCode (to_string code)) else Inr ())"

text \<open>\<^verbatim>\<open>hash.update(true)\<close> throws a TypeError: the data must be a string or a buffer.\<close>

fun hashPassword :: "platform \<Rightarrow> optval option \<Rightarrow> error + json" where
  "hashPassword P None = Inr JNull"
| "hashPassword P (Some OTrue) = Inl TypeError"
| "hashPassword P (Some (OStr pwd)) = (if pwd = [] then Inr JNull else Inr (JStr (sha256_hex P pwd)))"

text \<open>
  \<^verbatim>\<open>map[key]=value\<close> on an object created by \<^verbatim>\<open>{}\<close>, the value a string: the key
  \<^verbatim>\<open>__proto__\<close> reaches the setter inherited from \<^verbatim>\<open>Object.prototype\<close>, which ignores a
  value that is neither an object nor \<^verbatim>\<open>null\<close>; any other key updates the own property
  where it stands or adds it last. (The enumeration order of integer-like keys, which come
  first in JavaScript, is not modelled.)
\<close>

fun upsert :: "string \<Rightarrow> json \<Rightarrow> (string \<times> json) list \<Rightarrow> (string \<times> json) list" where
  "upsert k v [] = [(k, v)]"
| "upsert k v ((k', v') # kvs) = (if k' = k then (k, v) # kvs else (k', v') # upsert k v kvs)"

definition assign_str :: "string \<Rightarrow> string \<Rightarrow> (string \<times> json) list \<Rightarrow> (string \<times> json) list" where
  "assign_str k v kvs = (if k = ''__proto__'' then kvs else upsert k (JStr v) kvs)"

fun parseLocales_loop :: "string list \<Rightarrow> (string \<times> json) list \<Rightarrow> (string \<times> json) list" where
  "parseLocales_loop [] m = m"
| "parseLocales_loop (pair # pairs) m =
     (case split CHR ''='' pair of
        [] \<Rightarrow> parseLocales_loop pairs m
      | lang # urlParts \<Rightarrow>
          if lang = [] \<or> urlParts = [] then parseLocales_loop pairs m
          else parseLocales_loop pairs
                 (assign_str (trim lang) (trim (join CHR ''='' urlParts)) m))"

text \<open>\<^verbatim>\<open>true.split\<close> is not a function: a bare \<^verbatim>\<open>--locale\<close> throws a TypeError.\<close>

fun parseLocales :: "optval option \<Rightarrow> error + (string \<times> json) list" where
  "parseLocales None = Inr []"
| "parseLocales (Some OTrue) = Inl TypeError"
| "parseLocales (Some (OStr input)) =
     (if input = [] then Inr [] else Inr (parseLocales_loop (split CHR '','' input) []))"

definition isValidUrl :: "platform \<Rightarrow> optval \<Rightarrow> bool" where
  "isValidUrl P u = URL_parses P (to_string u)"

text \<open>\<^verbatim>\<open>opts.code||''\<close> and \<^verbatim>\<open>opts.mobile||null\<close>.\<close>

fun or_empty :: "optval option \<Rightarrow> optval" where
  "or_empty None = OStr []"
| "or_empty (Some v) = (if truthy (Some v) then v else OStr [])"

fun or_null :: "optval option \<Rightarrow> json" where
  "or_null None = JNull"
| "or_null (Some v) = (if truthy (Some v) then json_of v else JNull)"

text \<open>\<^verbatim>\<open>data.findIndex(item=>item.code===code)\<close>; \<open>None\<close> is \<^verbatim>\<open>-1\<close>.\<close>

fun findIndex_code :: "json \<Rightarrow> json list \<Rightarrow> error + nat option" where
  "findIndex_code c [] = Inr None"
| "findIndex_code c (item # items) =
     (case get_code item of
        Inl e \<Rightarrow> Inl e
      | Inr v \<Rightarrow>
          if v = Some c then Inr (Some 0)
          else and_then (findIndex_code c items) (\<lambda>r. Inr (map_option Suc r)))"

text \<open>\<^verbatim>\<open>data.filter(item=>item.code!==code)\<close>.\<close>

fun filter_code :: "json \<Rightarrow> json list \<Rightarrow> error + json list" where
  "filter_code c [] = Inr []"
| "filter_code c (item # items) =
     (case get_code item of
        Inl e \<Rightarrow> Inl e
      | Inr v \<Rightarrow>
          and_then (filter_code c items)
            (\<lambda>r. Inr (if v \<noteq> Some c then item # r else r)))"

subsection \<open>\<open>main\<close>\<close>

text \<open>
  What one run of the tool leaves behind: the files, the lines printed on the two streams
  and the exit status. A printed line is a datatype value, as the errors are.
\<close>

datatype message =
    Written string string
  | Deleted string
  | NotFound string
  | Failure error

record outcome =
  stored :: files
  stdout :: "message list"
  stderr :: "message list"
  exitCode :: nat

text \<open>
  The first lines of \<open>main\<close>: the file is \<^verbatim>\<open>opts.file\<close> resolved, or the default, and the
  whole record set is loaded before the command is looked at. \<^verbatim>\<open>path.resolve(true)\<close> throws.
\<close>

definition open_store :: "platform \<Rightarrow> opts \<Rightarrow> files \<Rightarrow> error + string \<times> json list" where
  "open_store P opts fs =
     and_then (if truthy (opts ''file'')
               then (case opts ''file'' of
                       Some (OStr f) \<Rightarrow> Inr (path_resolve P f)
                     | _ \<Rightarrow> Inl TypeError)
               else Inr (DEFAULT_FILE P))
       (\<lambda>file. and_then (loadMappings P fs file) (\<lambda>data. Inr (file, data)))"

text \<open>The code of the new record: checked when given, generated otherwise.\<close>

definition add_code :: "platform \<Rightarrow> opts \<Rightarrow> json list \<Rightarrow> error + optval" where
  "add_code P opts data =
     (let code = or_empty (opts ''code'')
      in if truthy (Some code)
         then if \<not> code_regex (to_string code) then Inl (InvalidInput CodeMalformed)
              else if \<not> truthy (opts ''replace'')
                   then and_then (ensureUnique code data) (\<lambda>_. Inr code)
                   else Inr code
         else and_then (getRandomCode (Math_random P) data) (\<lambda>c. Inr (OStr c)))"

text \<open>The object literal \<open>mapping\<close>; its members are evaluated in this order.\<close>

definition new_mapping :: "platform \<Rightarrow> opts \<Rightarrow> optval \<Rightarrow> optval \<Rightarrow> error + json" where
  "new_mapping P opts code url =
     (let expiresAt = or_null (opts ''expires'')
      in and_then (hashPassword P (opts ''password''))
           (\<lambda>passwordHash.
              let mobile = or_null (opts ''mobile'');
                  desktop = or_null (opts ''desktop'')
              in and_then (parseLocales (opts ''locale''))
                   (\<lambda>locale.
                      Inr (JObj [(''code'', json_of code),
                                 (''url'', json_of url),
                                 (''createdAt'', JStr (now_iso P)),
                                 (''expiresAt'', expiresAt),
                                 (''passwordHash'', passwordHash),
                                 (''targets'',
                                    JObj [(''device'', JObj [(''mobile'', mobile), (''desktop'', desktop)]),
                                          (''locale'', JObj locale)])]))))"

text \<open>Where the new record goes: \<^verbatim>\<open>data[idx]=mapping\<close> or \<^verbatim>\<open>data.push(mapping)\<close>.\<close>

definition place :: "opts \<Rightarrow> optval \<Rightarrow> json \<Rightarrow> json list \<Rightarrow> error + json list" where
  "place opts code mapping data =
     (if truthy (opts ''replace'')
      then and_then (findIndex_code (json_of code) data)
             (\<lambda>idx. case idx of
                       Some i \<Rightarrow> Inr (data[i := mapping])
                     | None \<Rightarrow> Inr (data @ [mapping]))
      else Inr (data @ [mapping]))"

text \<open>\<open>case 'add'\<close> up to the save: the code, the new record and the new record set.\<close>

definition add_records :: "platform \<Rightarrow> opts \<Rightarrow> json list \<Rightarrow> error + optval \<times> optval \<times> json \<times> json list" where
  "add_records P opts data =
     (if \<not> truthy (opts ''url'') then Inl (InvalidInput UrlMissing)
      else let url = or_empty (opts ''url'')
           in if \<not> isValidUrl P url then Inl (InvalidInput UrlMalformed)
              else and_then (add_code P opts data)
                     (\<lambda>code. and_then (new_mapping P opts code url)
                        (\<lambda>mapping. and_then (place opts code mapping data)
                           (\<lambda>data'. Inr (code, url, mapping, data')))))"

definition add_case :: "platform \<Rightarrow> opts \<Rightarrow> files \<Rightarrow> string \<Rightarrow> json list \<Rightarrow> error + outcome" where
  "add_case P opts fs file data =
     and_then (add_records P opts data)
       (\<lambda>(code, url, mapping, data').
          Inr \<lparr>stored = saveMappings P fs file data',
               stdout = [Written (to_string code) (to_string url)],
               stderr = [],
               exitCode = 0\<rparr>)"

definition remove_case :: "platform \<Rightarrow> opts \<Rightarrow> files \<Rightarrow> string \<Rightarrow> json list \<Rightarrow> error + outcome" where
  "remove_case P opts fs file data =
     (if \<not> truthy (opts ''code'') then Inl (InvalidInput CodeMissing)
      else let code = or_empty (opts ''code'');
               before = length data
           in and_then (filter_code (json_of code) data)
                (\<lambda>filtered.
                   if length filtered = before
                   then Inr \<lparr>stored = fs, stdout = [],
                             stderr = [NotFound (to_string code)], exitCode = 0\<rparr>
                   else Inr \<lparr>stored = saveMappings P fs file filtered,
                             stdout = [Deleted (to_string code)],
                             stderr = [], exitCode = 0\<rparr>))"

text \<open>
  \<open>main().catch\<close>: an error thrown anywhere prints its message on the error stream and sets
  the exit status to 1. Both commands write the file as their last step but one and print
  after it, so a run that throws has written and printed nothing.
\<close>

definition catch :: "files \<Rightarrow> error + outcome \<Rightarrow> outcome" where
  "catch fs r =
     (case r of
        Inl e \<Rightarrow> \<lparr>stored = fs, stdout = [], stderr = [Failure e], exitCode = 1\<rparr>
      | Inr oc \<Rightarrow> oc)"

text \<open>\<open>main\<close> for the commands that change the store, \<^verbatim>\<open>add\<close> and \<^verbatim>\<open>remove\<close>.\<close>

definition main_add :: "platform \<Rightarrow> opts \<Rightarrow> files \<Rightarrow> outcome" where
  "main_add P opts fs =
     catch fs (and_then (open_store P opts fs) (\<lambda>(file, data). add_case P opts fs file data))"

definition main_remove :: "platform \<Rightarrow> opts \<Rightarrow> files \<Rightarrow> outcome" where
  "main_remove P opts fs =
     catch fs (and_then (open_store P opts fs) (\<lambda>(file, data). remove_case P opts fs file data))"

section \<open>Notions the properties are stated with\<close>

text \<open>
  A record is a JSON object, a record set a list of records. The code of a record is the
  value of its \<^verbatim>\<open>code\<close> member; \<open>None\<close> is \<^verbatim>\<open>undefined\<close>.
\<close>

fun is_record :: "json \<Rightarrow> bool" where
  "is_record (JObj kvs) = True"
| "is_record _ = False"

definition record_set :: "json list \<Rightarrow> bool" where
  "record_set data = list_all is_record data"

fun code_of :: "json \<Rightarrow> json option" where
  "code_of (JObj kvs) = map_of kvs ''code''"
| "code_of _ = None"

definition codes :: "json list \<Rightarrow> json option list" where
  "codes data = map code_of data"

text \<open>
  The candidate of attempt \<open>i\<close> (from 0) of \<open>getRandomCode\<close>: what \<open>randCode\<close> returns when
  the earlier attempts have made their \<open>i\<close> times \<open>max CODE_MIN_LEN 4\<close> draws.
\<close>

definition candidate :: "(nat \<Rightarrow> nat) \<Rightarrow> nat \<Rightarrow> string" where
  "candidate rnd i =
     fst (randCode rnd (i * max CODE_MIN_LEN 4) (max CODE_MIN_LEN 4) AVOID_AMBIGUOUS)"

text \<open>
  The locale option as the specification words it: each pair is cut at its first \<open>=\<close>; a
  pair with no \<open>=\<close> or with nothing before it is skipped; the others map the trimmed tag
  to the trimmed URL, a later pair replacing an earlier one of the same tag.
\<close>

definition cut_first :: "char \<Rightarrow> string \<Rightarrow> (string \<times> string) option" where
  "cut_first sep s =
     (if sep \<in> set s
      then Some (takeWhile (\<lambda>c. c \<noteq> sep) s, tl (dropWhile (\<lambda>c. c \<noteq> sep) s))
      else None)"

fun locale_pairs :: "string list \<Rightarrow> (string \<times> string) list" where
  "locale_pairs [] = []"
| "locale_pairs (pair # pairs) =
     (case cut_first CHR ''='' pair of
        None \<Rightarrow> locale_pairs pairs
      | Some (lang, url) \<Rightarrow>
          if lang = [] then locale_pairs pairs
          else (trim lang, trim url) # locale_pairs pairs)"

definition locale_map :: "string \<Rightarrow> string \<rightharpoonup> string" where
  "locale_map input = map_of (rev (locale_pairs (split CHR '','' input)))"

section \<open>An in-memory platform\<close>

text \<open>
  A platform to run the tool on, as the design notes of the specification suggest for
  tests: the file system is a map, the clock and the draws are fixed, the URL check and the
  digest are stand-ins. Its JSON codec follows the standard.

  \<open>stringify\<close> prints as \<^verbatim>\<open>JSON.stringify(value,null,2)\<close> does: two spaces for each level, one
  member or element on a line, \<open>[]\<close> and \<open>{}\<close> for the empty ones, strings quoted with the
  escapes of the standard, a finite number by its rendering (negative zero as \<^verbatim>\<open>0\<close>) and a
  number that is not finite as \<^verbatim>\<open>null\<close>.

  \<open>parse\<close> reads JSON text as \<^verbatim>\<open>JSON.parse\<close> does. A number literal is the longest run of
  the characters a literal is made of, and it must follow the grammar of the standard.
  Which number a literal denotes is a matter of floating-point rounding, outside this
  development: the conversion is the parameter \<open>nv\<close>, from the literal to the rendering of
  the number it denotes (\<^verbatim>\<open>1.0\<close> to \<^verbatim>\<open>1\<close>, \<^verbatim>\<open>1e999\<close> to \<^verbatim>\<open>Infinity\<close>). A key that occurs
  twice in an object keeps its first place and its last value. An escape for a code unit
  above 255 is not read, strings being 8-bit here. \<open>parse\<close> and its helpers count their
  steps on a fuel argument; the length of the text is fuel enough, as
  \<open>parse_value_printed\<close> shows for printed texts.
\<close>

definition hex_digit :: "nat \<Rightarrow> char" where
  "hex_digit d = ''0123456789abcdef'' ! d"

definition quote_char :: "char \<Rightarrow> string" where
  "quote_char c =
     (if c = CHR 0x22 then [CHR 0x5C, CHR 0x22]
      else if c = CHR 0x5C then [CHR 0x5C, CHR 0x5C]
      else if c = CHR 0x08 then [CHR 0x5C, CHR ''b'']
      else if c = CHR 0x0C then [CHR 0x5C, CHR ''f'']
      else if c = CHR 0x0A then [CHR 0x5C, CHR ''n'']
      else if c = CHR 0x0D then [CHR 0x5C, CHR ''r'']
      else if c = CHR 0x09 then [CHR 0x5C, CHR ''t'']
      else if (of_char c :: nat) < 32
           then [CHR 0x5C, CHR ''u'', CHR ''0'', CHR ''0'',
                 hex_digit (of_char c div 16), hex_digit (of_char c mod 16)]
      else [c])"

definition quote :: "string \<Rightarrow> string" where
  "quote s = CHR 0x22 # concat (map quote_char s) @ [CHR 0x22]"

definition indent :: "nat \<Rightarrow> string" where
  "indent n = CHR 0x0A # replicate n CHR '' ''"

fun sep_join :: "string \<Rightarrow> string list \<Rightarrow> string" where
  "sep_join sep [] = []"
| "sep_join sep [p] = p"
| "sep_join sep (p # q # ps) = p @ sep @ sep_join sep (q # ps)"

definition not_finite :: "string \<Rightarrow> bool" where
  "not_finite d = (d \<in> set [''Infinity'', ''-Infinity'', ''NaN''])"

fun stringify :: "nat \<Rightarrow> json \<Rightarrow> string" where
  "stringify n JNull = ''null''"
| "stringify n (JBool b) = (if b then ''true'' else ''false'')"
| "stringify n (JNum d) = (if not_finite d then ''null'' else if d = ''-0'' then ''0'' else d)"
| "stringify n (JStr s) = quote s"
| "stringify n (JArr xs) =
     (if xs = [] then ''[]''
      else ''['' @ indent (n + 2)
           @ sep_join (CHR '','' # indent (n + 2)) (map (stringify (n + 2)) xs)
           @ indent n @ '']'')"
| "stringify n (JObj kvs) =
     (if kvs = [] then ''{}''
      else ''{'' @ indent (n + 2)
           @ sep_join (CHR '','' # indent (n + 2))
               (map (\<lambda>kv. quote (fst kv) @ '': '' @ stringify (n + 2) (snd kv)) kvs)
           @ indent n @ ''}'')"


definition json_ws :: "char \<Rightarrow> bool" where
  "json_ws c = (c \<in> set [CHR 0x20, CHR 0x09, CHR 0x0A, CHR 0x0D])"

definition skip_ws :: "string \<Rightarrow> string" where
  "skip_ws s = dropWhile json_ws s"

definition hex_val :: "char \<Rightarrow> nat option" where
  "hex_val c =
     (let n = (of_char c :: nat)
      in if 48 \<le> n \<and> n \<le> 57 then Some (n - 48)
         else if 97 \<le> n \<and> n \<le> 102 then Some (n - 87)
         else if 65 \<le> n \<and> n \<le> 70 then Some (n - 55)
         else None)"

definition unescape :: "char \<Rightarrow> char option" where
  "unescape e =
     (if e = CHR 0x22 \<or> e = CHR 0x5C \<or> e = CHR ''/'' then Some e
      else if e = CHR ''b'' then Some (CHR 0x08)
      else if e = CHR ''f'' then Some (CHR 0x0C)
      else if e = CHR ''n'' then Some (CHR 0x0A)
      else if e = CHR ''r'' then Some (CHR 0x0D)
      else if e = CHR ''t'' then Some (CHR 0x09)
      else None)"

definition unicode_escape :: "string \<Rightarrow> char option" where
  "unicode_escape ds =
     (case map hex_val ds of
        [Some a, Some b, Some c, Some d] \<Rightarrow>
          if a = 0 \<and> b = 0 then Some (char_of (16 * c + d)) else None
      | _ \<Rightarrow> None)"

definition consume :: "'a \<Rightarrow> ('a list \<times> string) option \<Rightarrow> ('a list \<times> string) option" where
  "consume x r = map_option (\<lambda>(xs, rest). (x # xs, rest)) r"

fun parse_chars :: "nat \<Rightarrow> string \<Rightarrow> (string \<times> string) option" where
  "parse_chars 0 s = None"
| "parse_chars (Suc n) [] = None"
| "parse_chars (Suc n) (c # cs) =
     (if c = CHR 0x22 then Some ([], cs)
      else if c = CHR 0x5C then
        (case cs of
           [] \<Rightarrow> None
         | e # cs' \<Rightarrow>
             if e = CHR ''u''
             then (case unicode_escape (take 4 cs') of
                     None \<Rightarrow> None
                   | Some ch \<Rightarrow> consume ch (parse_chars n (drop 4 cs')))
             else (case unescape e of
                     None \<Rightarrow> None
                   | Some ch \<Rightarrow> consume ch (parse_chars n cs')))
      else if (of_char c :: nat) < 32 then None
      else consume c (parse_chars n cs))"

text \<open>
  The grammar of a number literal: an optional minus sign; \<open>0\<close>, or a digit from 1 to 9 and
  digits; optionally a point and one digit or more; optionally \<open>e\<close> or \<open>E\<close>, an optional
  sign and one digit or more.
\<close>

definition is_digit :: "char \<Rightarrow> bool" where
  "is_digit c = (48 \<le> (of_char c :: nat) \<and> (of_char c :: nat) \<le> 57)"

definition number_char :: "char \<Rightarrow> bool" where
  "number_char c = (is_digit c \<or> c \<in> set ''-+.eE'')"

definition int_part :: "string \<Rightarrow> string option" where
  "int_part s =
     (case s of
        [] \<Rightarrow> None
      | c # cs \<Rightarrow>
          if c = CHR ''0'' then Some cs
          else if is_digit c then Some (dropWhile is_digit cs)
          else None)"

definition frac_part :: "string \<Rightarrow> string option" where
  "frac_part s =
     (case s of
        [] \<Rightarrow> Some []
      | c # cs \<Rightarrow>
          if c \<noteq> CHR ''.'' then Some s
          else if takeWhile is_digit cs = [] then None
          else Some (dropWhile is_digit cs))"

definition exp_part :: "string \<Rightarrow> bool" where
  "exp_part s =
     (case s of
        [] \<Rightarrow> True
      | c # cs \<Rightarrow>
          (c = CHR ''e'' \<or> c = CHR ''E'') \<and>
          (let ds = (case cs of
                       [] \<Rightarrow> []
                     | g # gs \<Rightarrow> if g = CHR ''+'' \<or> g = CHR ''-'' then gs else cs)
           in ds \<noteq> [] \<and> list_all is_digit ds))"

definition valid_number :: "string \<Rightarrow> bool" where
  "valid_number s =
     (case int_part (case s of [] \<Rightarrow> [] | c # cs \<Rightarrow> if c = CHR ''-'' then cs else s) of
        None \<Rightarrow> False
      | Some r \<Rightarrow> (case frac_part r of None \<Rightarrow> False | Some r' \<Rightarrow> exp_part r'))"

definition merge_members :: "(string \<times> json) list \<Rightarrow> (string \<times> json) list" where
  "merge_members kvs = foldl (\<lambda>acc kv. upsert (fst kv) (snd kv) acc) [] kvs"

definition literal :: "string \<Rightarrow> json \<Rightarrow> string \<Rightarrow> (json \<times> string) option" where
  "literal w v s = (if take (length w) s = w then Some (v, drop (length w) s) else None)"

fun parse_value :: "(string \<Rightarrow> string) \<Rightarrow> nat \<Rightarrow> string \<Rightarrow> (json \<times> string) option"
  and parse_elems :: "(string \<Rightarrow> string) \<Rightarrow> nat \<Rightarrow> string \<Rightarrow> (json list \<times> string) option"
  and parse_members :: "(string \<Rightarrow> string) \<Rightarrow> nat \<Rightarrow> string \<Rightarrow> ((string \<times> json) list \<times> string) option"
where
  "parse_value nv 0 s = None"
| "parse_value nv (Suc n) [] = None"
| "parse_value nv (Suc n) (c # cs) =
     (if c = CHR ''n'' then literal ''ull'' JNull cs
      else if c = CHR ''t'' then literal ''rue'' (JBool True) cs
      else if c = CHR ''f'' then literal ''alse'' (JBool False) cs
      else if c = CHR 0x22 then map_option (\<lambda>(s, rest). (JStr s, rest)) (parse_chars (length cs) cs)
      else if c = CHR ''[''
      then (if take 1 (skip_ws cs) = '']'' then Some (JArr [], drop 1 (skip_ws cs))
            else map_option (\<lambda>(xs, rest). (JArr xs, rest)) (parse_elems nv n (skip_ws cs)))
      else if c = CHR ''{''
      then (if take 1 (skip_ws cs) = ''}'' then Some (JObj [], drop 1 (skip_ws cs))
            else map_option (\<lambda>(kvs, rest). (JObj (merge_members kvs), rest))
                   (parse_members nv n (skip_ws cs)))
      else if number_char c
      then (if valid_number (takeWhile number_char (c # cs))
            then Some (JNum (nv (takeWhile number_char (c # cs))), dropWhile number_char (c # cs))
            else None)
      else None)"
| "parse_elems nv 0 s = None"
| "parse_elems nv (Suc n) s =
     (case parse_value nv n s of
        None \<Rightarrow> None
      | Some (v, rest) \<Rightarrow>
          (case skip_ws rest of
             [] \<Rightarrow> None
           | c # rest' \<Rightarrow>
               if c = CHR '']'' then Some ([v], rest')
               else if c = CHR '','' then consume v (parse_elems nv n (skip_ws rest'))
               else None))"
| "parse_members nv 0 s = None"
| "parse_members nv (Suc n) s =
     (if take 1 s \<noteq> [CHR 0x22] then None
      else case parse_chars (length s) (drop 1 s) of
             None \<Rightarrow> None
           | Some (k, rest) \<Rightarrow>
               if take 1 (skip_ws rest) \<noteq> '':'' then None
               else (case parse_value nv n (skip_ws (drop 1 (skip_ws rest))) of
                       None \<Rightarrow> None
                     | Some (v, rest') \<Rightarrow>
                         (case skip_ws rest' of
                            [] \<Rightarrow> None
                          | c # rest'' \<Rightarrow>
                              if c = CHR ''}'' then Some ([(k, v)], rest'')
                              else if c = CHR '','' then consume (k, v) (parse_members nv n (skip_ws rest''))
                              else None)))"

definition parse :: "(string \<Rightarrow> string) \<Rightarrow> string \<Rightarrow> string + json" where
  "parse nv s =
     (case parse_value nv (length s) (skip_ws s) of
        None \<Rightarrow> Inl ''Unexpected token''
      | Some (v, rest) \<Rightarrow> if skip_ws rest = [] then Inr v else Inl ''Unexpected token'')"

text \<open>
  The conversion of the examples. It is exact on the literals they use: a short integer
  literal is its own rendering, \<^verbatim>\<open>-0\<close> denotes negative zero and \<^verbatim>\<open>1e999\<close> is beyond the
  largest finite number. On every other literal it is a stand-in.
\<close>

definition test_number :: "string \<Rightarrow> string" where
  "test_number t = (if t = ''1e999'' then ''Infinity'' else t)"

definition test_url :: "string \<Rightarrow> bool" where
  "test_url u = (take 8 u = ''https://'' \<and> 8 < length u \<and> \<not> list_ex js_space u)"

definition test_platform :: platform where
  "test_platform =
     \<lparr>JSON_parse = parse test_number,
      JSON_stringify = stringify 0,
      URL_parses = test_url,
      sha256_hex = (\<lambda>pwd. ''5e884898da28047151d0e56f8dc6292773603d0d6aabbdd62a11ef721d1542d8''),
      path_resolve = (\<lambda>p. p),
      DEFAULT_FILE = ''/repo/assets/mappings.json'',
      now_iso = ''2024-05-01T12:00:00.000Z'',
      Math_random = (\<lambda>k. k)\<rparr>"


text \<open>A store of two records, and the file that holds it.\<close>

definition example_data :: "json list" where
  "example_data =
     [JObj [(''code'', JStr ''promo1''), (''url'', JStr ''https://example.com'')],
      JObj [(''code'', JStr ''docs''), (''url'', JStr ''https://example.org/docs'')]]"

definition example_files :: files where
  "example_files = saveMappings test_platform Map.empty ''/repo/assets/mappings.json'' example_data"

text \<open>The record that \<^verbatim>\<open>add --url https://example.net/new --code <code>\<close> builds there.\<close>

definition example_mapping :: "string \<Rightarrow> json" where
  "example_mapping c =
     JObj [(''code'', JStr c),
           (''url'', JStr ''https://example.net/new''),
           (''createdAt'', JStr ''2024-05-01T12:00:00.000Z''),
           (''expiresAt'', JNull),
           (''passwordHash'', JNull),
           (''targets'',
              JObj [(''device'', JObj [(''mobile'', JNull), (''desktop'', JNull)]),
                    (''locale'', JObj [])])]"

text \<open>Command lines for the examples, as \<open>parseArgs\<close> hands them to \<open>main\<close>.\<close>

definition example_add :: opts where
  "example_add = [''url'' \<mapsto> OStr ''https://example.net/new'', ''code'' \<mapsto> OStr ''promo1'']"

definition example_add_replace :: opts where
  "example_add_replace =
     [''url'' \<mapsto> OStr ''https://example.net/new'', ''code'' \<mapsto> OStr ''promo1'',
      ''replace'' \<mapsto> OTrue]"

definition example_add_random :: opts where
  "example_add_random = [''url'' \<mapsto> OStr ''https://example.net/new'']"

definition example_add_no_url :: opts where
  "example_add_no_url = [''code'' \<mapsto> OStr ''promo1'']"

definition example_remove_docs :: opts where
  "example_remove_docs = [''code'' \<mapsto> OStr ''docs'']"

definition example_remove_nope :: opts where
  "example_remove_nope = [''code'' \<mapsto> OStr ''nope'']"

text \<open>A store with a code held twice, and one whose codes a generator can run into.\<close>

definition example_data_twice :: "json list" where
  "example_data_twice =
     [JObj [(''code'', JStr ''docs''), (''url'', JStr ''https://example.org/docs'')],
      JObj [(''code'', JStr ''promo1''), (''url'', JStr ''https://example.com'')],
      JObj [(''code'', JStr ''docs''), (''url'', JStr ''https://example.org/other'')]]"

definition example_files_twice :: files where
  "example_files_twice =
     saveMappings test_platform Map.empty ''/repo/assets/mappings.json'' example_data_twice"






definition example_data_taken :: "json list" where
  "example_data_taken =
     [JObj [(''code'', JStr ''23456''), (''url'', JStr ''https://example.com'')],
      JObj [(''code'', JStr ''22222''), (''url'', JStr ''https://example.org/docs'')]]"

section \<open>Traversals of the record set\<close>

text \<open>
  Every traversal of the tool reads \<^verbatim>\<open>item.code\<close>; on a record set none of them throws,
  and each is the list function one expects.
\<close>

lemma and_then_Inr: "and_then m f = Inr y \<longleftrightarrow> (\<exists>x. m = Inr x \<and> f x = Inr y)"
  by (cases m) (simp_all add: and_then_def)

lemma and_then_simps: "and_then (Inl e) f = Inl e" "and_then (Inr x) f = f x"
  by (simp_all add: and_then_def)

lemma get_code_record: "is_record item \<Longrightarrow> get_code item = Inr (code_of item)"
  by (cases item) simp_all

lemma get_code_Inr: "get_code item = Inr v \<Longrightarrow> v = code_of item"
  by (cases item) auto

lemma map_code_records: "record_set data \<Longrightarrow> map_code data = Inr (codes data)"
  by (induction data) (simp_all add: record_set_def codes_def get_code_record)

lemma map_code_Inr: "map_code data = Inr cs \<Longrightarrow> cs = codes data"
  by (induction data arbitrary: cs) (auto simp: codes_def split: sum.splits dest: get_code_Inr)

lemma some_code_records: "record_set data \<Longrightarrow> some_code c data = Inr (Some c \<in> set (codes data))"
  by (induction data) (auto simp: record_set_def codes_def get_code_record)

lemma some_code_Inr: "some_code c data = Inr b \<Longrightarrow> b = (Some c \<in> set (codes data))"
  by (induction data) (auto simp: codes_def split: sum.splits if_splits dest: get_code_Inr)

lemma filter_code_records:
  "record_set data \<Longrightarrow> filter_code c data = Inr (filter (\<lambda>item. code_of item \<noteq> Some c) data)"
  by (induction data) (auto simp: record_set_def and_then_def get_code_record)

lemma findIndex_code_None:
  "findIndex_code c data = Inr None \<Longrightarrow> Some c \<notin> set (codes data)"
  by (induction data) (auto simp: codes_def and_then_def split: sum.splits if_splits dest: get_code_Inr)

lemma findIndex_code_Some:
  "findIndex_code c data = Inr (Some i) \<Longrightarrow>
     i < length data \<and> code_of (data ! i) = Some c \<and> (\<forall>j<i. code_of (data ! j) \<noteq> Some c)"
proof (induction data arbitrary: i)
  case Nil
  then show ?case by simp
next
  case (Cons item items)
  from Cons.prems obtain v where v: "get_code item = Inr v"
    by (auto split: sum.splits)
  then have cv: "v = code_of item" by (rule get_code_Inr)
  show ?case
  proof (cases "v = Some c")
    case True
    with Cons.prems v cv show ?thesis by simp
  next
    case False
    with Cons.prems v obtain i' where i': "findIndex_code c items = Inr (Some i')" "i = Suc i'"
      by (auto simp: and_then_def split: sum.splits)
    from Cons.IH[OF i'(1)] i'(2) False cv show ?thesis
      by (auto simp: nth_Cons split: nat.splits)
  qed
qed

lemma code_in_codes: "k < length data \<Longrightarrow> code_of (data ! k) = c \<Longrightarrow> c \<in> set (codes data)"
  unfolding codes_def by (metis image_eqI list.set_map nth_mem)

lemma filter_keeps_all:
  "length (filter (\<lambda>item. code_of item \<noteq> Some c) data) = length data \<longleftrightarrow> Some c \<notin> set (codes data)"
proof
  assume "length (filter (\<lambda>item. code_of item \<noteq> Some c) data) = length data"
  then show "Some c \<notin> set (codes data)"
    using length_filter_less[of _ data "\<lambda>item. code_of item \<noteq> Some c"]
    by (fastforce simp: codes_def)
next
  assume "Some c \<notin> set (codes data)"
  then have "filter (\<lambda>item. code_of item \<noteq> Some c) data = data"
    unfolding codes_def filter_id_conv by (metis image_eqI list.set_map)
  then show "length (filter (\<lambda>item. code_of item \<noteq> Some c) data) = length data"
    by simp
qed

lemma codes_update:
  "k < length data \<Longrightarrow> code_of (data ! k) = code_of m \<Longrightarrow> codes (data[k := m]) = codes data"
  by (simp add: codes_def map_update list_update_same_conv)

section \<open>The code generator draws five safe characters\<close>

lemma randCode_loop_eq:
  "randCode_loop chars rnd n k s =
     (s @ map (\<lambda>j. chars ! (rnd (k + j) mod length chars)) [0..<n], k + n)"
proof (induction n arbitrary: k s)
  case 0
  then show ?case by simp
next
  case (Suc n)
  have "map (\<lambda>j. chars ! (rnd (k + j) mod length chars)) [0..<Suc n] =
        chars ! (rnd k mod length chars) # map (\<lambda>j. chars ! (rnd (Suc k + j) mod length chars)) [0..<n]"
    by (simp add: upt_rec[of 0 "Suc n"] map_Suc_upt[symmetric] del: upt_Suc)
  with Suc show ?case by simp
qed

lemma length_base62Safe: "length base62Safe = 56"
  by (simp add: base62Safe_def)

lemma randCode_safe:
  "randCode rnd k len True =
     (map (\<lambda>j. base62Safe ! (rnd (k + j) mod 56)) [0..<len], k + len)"
  by (simp add: randCode_def randCode_loop_eq length_base62Safe)

lemma max_len: "max CODE_MIN_LEN 4 = 5"
  by (simp add: CODE_MIN_LEN_def)

lemma randCode_candidate: "randCode rnd (5 * i) 5 AVOID_AMBIGUOUS = (candidate rnd i, 5 * Suc i)"
  by (simp add: AVOID_AMBIGUOUS_def randCode_safe candidate_def max_len mult.commute)

lemma candidate_eq: "candidate rnd i = map (\<lambda>j. base62Safe ! (rnd (5 * i + j) mod 56)) [0..<5]"
  by (simp add: candidate_def max_len AVOID_AMBIGUOUS_def randCode_safe mult.commute)

lemma candidate_cong:
  assumes "\<forall>k<50000. rnd k = rnd' k" and "i < 10000"
  shows "candidate rnd i = candidate rnd' i"
proof -
  have "rnd (5 * i + j) = rnd' (5 * i + j)" if "j < 5" for j
    using assms that by simp
  then show ?thesis by (simp add: candidate_eq)
qed

lemma randCode_safe_chars:
  "randCode rnd k len True = (c, k') \<Longrightarrow> length c = len \<and> list_all code_char c"
proof -
  have all: "\<forall>ch\<in>set base62Safe. code_char ch"
    by (simp add: base62Safe_def code_char_def)
  assume "randCode rnd k len True = (c, k')"
  then have c: "c = map (\<lambda>j. base62Safe ! (rnd (k + j) mod 56)) [0..<len]"
    by (simp add: randCode_safe)
  have "base62Safe ! (x mod 56) \<in> set base62Safe" for x
    by (simp add: length_base62Safe)
  with all c show ?thesis
    by (simp add: list_all_iff)
qed

subsection \<open>The loop of \<open>getRandomCode\<close>\<close>

lemma loop_exhausted:
  "(\<forall>i<n. Some (JStr (candidate rnd (m + i))) \<in> used) \<Longrightarrow>
     getRandomCode_loop rnd used 5 n (5 * m) = Inl GenerationExhausted"
proof (induction n arbitrary: m)
  case 0
  then show ?case by simp
next
  case (Suc n)
  from Suc.prems have here: "Some (JStr (candidate rnd m)) \<in> used"
    by (metis add.right_neutral zero_less_Suc)
  from Suc.prems have "\<forall>i<n. Some (JStr (candidate rnd (Suc m + i))) \<in> used"
    by (metis Suc_less_eq add_Suc_shift)
  then have "getRandomCode_loop rnd used 5 n (5 * Suc m) = Inl GenerationExhausted"
    by (rule Suc.IH)
  with here show ?case
    by (simp add: randCode_candidate)
qed

lemma loop_first:
  "i < n \<Longrightarrow> Some (JStr (candidate rnd (m + i))) \<notin> used \<Longrightarrow>
   (\<forall>j<i. Some (JStr (candidate rnd (m + j))) \<in> used) \<Longrightarrow>
     getRandomCode_loop rnd used 5 n (5 * m) = Inr (candidate rnd (m + i))"
proof (induction n arbitrary: m i)
  case 0
  then show ?case by simp
next
  case (Suc n)
  show ?case
  proof (cases i)
    case 0
    with Suc.prems show ?thesis by (simp add: randCode_candidate)
  next
    case (Suc i')
    with Suc.prems have here: "Some (JStr (candidate rnd m)) \<in> used"
      by (metis add.right_neutral zero_less_Suc)
    from Suc Suc.prems have a: "i' < n" and b: "Some (JStr (candidate rnd (Suc m + i'))) \<notin> used"
      by simp_all
    from Suc Suc.prems have c: "\<forall>j<i'. Some (JStr (candidate rnd (Suc m + j))) \<in> used"
      by (metis Suc_less_eq add_Suc_shift)
    from Suc.IH[OF a b c] here Suc show ?thesis
      by (simp add: randCode_candidate)
  qed
qed

lemma loop_Inr:
  "getRandomCode_loop rnd used len n k = Inr c \<Longrightarrow>
     Some (JStr c) \<notin> used \<and> length c = len \<and> list_all code_char c"
proof (induction n arbitrary: k)
  case 0
  then show ?case by simp
next
  case (Suc n)
  obtain c0 k0 where r: "randCode rnd k len True = (c0, k0)"
    by (cases "randCode rnd k len True")
  show ?case
  proof (cases "Some (JStr c0) \<in> used")
    case True
    with Suc.prems r have "getRandomCode_loop rnd used len n k0 = Inr c"
      by (simp add: AVOID_AMBIGUOUS_def)
    then show ?thesis by (rule Suc.IH)
  next
    case False
    with Suc.prems r have "c = c0" by (simp add: AVOID_AMBIGUOUS_def)
    with False randCode_safe_chars[OF r] show ?thesis by simp
  qed
qed

lemma getRandomCode_loop_start:
  "record_set existing \<Longrightarrow>
     getRandomCode rnd existing = getRandomCode_loop rnd (set (codes existing)) 5 10000 (5 * 0)"
  by (simp add: getRandomCode_def max_len map_code_records)

lemma getRandomCode_exhausted:
  assumes "record_set existing"
    and "\<forall>i<10000. Some (JStr (candidate rnd i)) \<in> set (codes existing)"
  shows "getRandomCode rnd existing = Inl GenerationExhausted"
  unfolding getRandomCode_loop_start[OF assms(1)]
  using assms(2) loop_exhausted[of 10000 rnd 0] by simp

lemma getRandomCode_first:
  assumes "record_set existing" and "i < 10000"
    and "Some (JStr (candidate rnd i)) \<notin> set (codes existing)"
    and "\<forall>j<i. Some (JStr (candidate rnd j)) \<in> set (codes existing)"
  shows "getRandomCode rnd existing = Inr (candidate rnd i)"
  unfolding getRandomCode_loop_start[OF assms(1)]
  using assms(2-4) loop_first[of i 10000 rnd 0] by simp

lemma getRandomCode_draws:
  assumes "record_set existing" and "\<forall>k<50000. rnd k = rnd' k"
  shows "getRandomCode rnd' existing = getRandomCode rnd existing"
proof (cases "\<forall>i<10000. Some (JStr (candidate rnd i)) \<in> set (codes existing)")
  case True
  then have "\<forall>i<10000. Some (JStr (candidate rnd' i)) \<in> set (codes existing)"
    using candidate_cong[OF assms(2)] by simp
  with True assms(1) show ?thesis by (simp add: getRandomCode_exhausted)
next
  case False
  then have "\<exists>i. i < 10000 \<and> Some (JStr (candidate rnd i)) \<notin> set (codes existing)"
    by blast
  then obtain i where i: "i < 10000 \<and> Some (JStr (candidate rnd i)) \<notin> set (codes existing)"
    and least: "\<forall>j<i. \<not> (j < 10000 \<and> Some (JStr (candidate rnd j)) \<notin> set (codes existing))"
    using exists_least_iff[of "\<lambda>i. i < 10000 \<and> Some (JStr (candidate rnd i)) \<notin> set (codes existing)"]
    by blast
  from i least have before: "\<forall>j<i. Some (JStr (candidate rnd j)) \<in> set (codes existing)"
    by auto
  have same: "candidate rnd' j = candidate rnd j" if "j \<le> i" for j
    using candidate_cong[OF assms(2), of j] that i by simp
  from i before have "getRandomCode rnd existing = Inr (candidate rnd i)"
    using getRandomCode_first[OF assms(1)] by blast
  moreover from i before same have "getRandomCode rnd' existing = Inr (candidate rnd' i)"
    using getRandomCode_first[OF assms(1), of i rnd'] by auto
  ultimately show ?thesis using same by simp
qed

lemma getRandomCode_Inr:
  assumes "getRandomCode rnd data = Inr c"
  shows "Some (JStr c) \<notin> set (codes data) \<and> length c = 5 \<and> list_all code_char c"
proof -
  from assms obtain cs where cs: "map_code data = Inr cs"
    and l: "getRandomCode_loop rnd (set cs) 5 10000 0 = Inr c"
    by (auto simp: getRandomCode_def max_len split: sum.splits)
  from cs have "cs = codes data" by (rule map_code_Inr)
  with loop_Inr[OF l] show ?thesis by simp
qed

section \<open>The steps of \<open>add\<close>\<close>

lemma new_mapping_code: "new_mapping P opts code url = Inr m \<Longrightarrow> code_of m = Some (json_of code)"
  by (auto simp: new_mapping_def Let_def and_then_Inr)

lemma place_cases:
  assumes "place opts code m data = Inr data'"
  shows "(truthy (opts ''replace'') \<and>
          (\<exists>k<length data. code_of (data ! k) = Some (json_of code)
               \<and> (\<forall>j<k. code_of (data ! j) \<noteq> Some (json_of code)) \<and> data' = data[k := m]))
       \<or> (data' = data @ [m] \<and> (truthy (opts ''replace'') \<longrightarrow> Some (json_of code) \<notin> set (codes data)))"
proof (cases "truthy (opts ''replace'')")
  case False
  with assms show ?thesis by (simp add: place_def)
next
  case True
  with assms obtain idx where idx: "findIndex_code (json_of code) data = Inr idx"
    and res: "data' = (case idx of Some i \<Rightarrow> data[i := m] | None \<Rightarrow> data @ [m])"
    by (auto simp: place_def and_then_Inr split: option.splits)
  show ?thesis
  proof (cases idx)
    case None
    with idx res show ?thesis by (simp add: findIndex_code_None)
  next
    case (Some k)
    with idx res True show ?thesis using findIndex_code_Some by fastforce
  qed
qed

lemma add_records_Inr:
  "add_records P opts data = Inr (code, url, m, data') \<longleftrightarrow>
     truthy (opts ''url'') \<and> url = or_empty (opts ''url'') \<and> isValidUrl P url \<and>
     add_code P opts data = Inr code \<and> new_mapping P opts code url = Inr m \<and>
     place opts code m data = Inr data'"
  by (auto simp: add_records_def Let_def and_then_Inr)

lemma main_add_saves:
  assumes "open_store P opts fs = Inr (file, data)"
    and "add_records P opts data = Inr (code, url, m, data')"
  shows "main_add P opts fs =
           \<lparr>stored = saveMappings P fs file data',
            stdout = [Written (to_string code) (to_string url)], stderr = [], exitCode = 0\<rparr>"
  using assms by (simp add: main_add_def add_case_def and_then_simps catch_def)

lemma main_add_fails:
  assumes "open_store P opts fs = Inr (file, data)"
    and "add_records P opts data = Inl e"
  shows "main_add P opts fs = \<lparr>stored = fs, stdout = [], stderr = [Failure e], exitCode = 1\<rparr>"
  using assms by (simp add: main_add_def add_case_def and_then_simps catch_def)

lemma ensureUnique_Inr: "ensureUnique code data = Inr u \<Longrightarrow> Some (json_of code) \<notin> set (codes data)"
  by (auto simp: ensureUnique_def and_then_Inr split: if_splits dest: some_code_Inr)

lemma add_code_generated:
  assumes "\<not> truthy (opts ''code'')" and "add_code P opts data = Inr code"
  shows "\<exists>c. code = OStr c \<and> getRandomCode (Math_random P) data = Inr c"
proof -
  from assms(1) have "\<not> truthy (Some (or_empty (opts ''code'')))"
    by (cases "opts ''code''") auto
  with assms(2) show ?thesis
    by (auto simp: add_code_def Let_def and_then_Inr)
qed

lemma add_code_fresh:
  assumes "\<not> truthy (opts ''replace'')" and "add_code P opts data = Inr code"
  shows "Some (json_of code) \<notin> set (codes data)"
proof (cases "truthy (Some (or_empty (opts ''code'')))")
  case True
  with assms show ?thesis
    by (auto simp: add_code_def Let_def and_then_Inr split: if_splits dest: ensureUnique_Inr)
next
  case False
  with assms(2) obtain c where "code = OStr c" "getRandomCode (Math_random P) data = Inr c"
    by (auto simp: add_code_def Let_def and_then_Inr)
  with getRandomCode_Inr show ?thesis by fastforce
qed

lemma findIndex_code_records: "record_set data \<Longrightarrow> \<exists>r. findIndex_code c data = Inr r"
  by (induction data) (auto simp: record_set_def get_code_record and_then_def)

lemma hashPassword_Inr: "pwd \<noteq> Some OTrue \<Longrightarrow> \<exists>h. hashPassword P pwd = Inr h"
  by (cases "(P, pwd)" rule: hashPassword.cases) auto

lemma parseLocales_Inr: "input \<noteq> Some OTrue \<Longrightarrow> \<exists>m. parseLocales input = Inr m"
  by (cases input rule: parseLocales.cases) auto

text \<open>
  With \<^verbatim>\<open>--replace\<close>, a well-formed code, a URL that parses and no bare \<^verbatim>\<open>--password\<close> or
  \<^verbatim>\<open>--locale\<close>, \<open>add\<close> succeeds on every record set.
\<close>

lemma add_replace_succeeds:
  assumes "record_set data" and "truthy (opts ''replace'')"
    and "opts ''code'' = Some c" and "truthy (Some c)" and "code_regex (to_string c)"
    and "truthy (opts ''url'')" and "isValidUrl P (or_empty (opts ''url''))"
    and "opts ''password'' \<noteq> Some OTrue" and "opts ''locale'' \<noteq> Some OTrue"
  shows "\<exists>mapping data'. add_records P opts data = Inr (c, or_empty (opts ''url''), mapping, data')"
proof -
  from assms(3,4) have oe: "or_empty (opts ''code'') = c" by simp
  have ac: "add_code P opts data = Inr c"
    using assms(2,4,5) by (simp add: add_code_def oe)
  obtain h where h: "hashPassword P (opts ''password'') = Inr h"
    using hashPassword_Inr[OF assms(8)] by blast
  obtain l where l: "parseLocales (opts ''locale'') = Inr l"
    using parseLocales_Inr[OF assms(9)] by blast
  obtain m where m: "new_mapping P opts c (or_empty (opts ''url'')) = Inr m"
    by (simp add: new_mapping_def h l and_then_simps)
  obtain r where r: "findIndex_code (json_of c) data = Inr r"
    using findIndex_code_records[OF assms(1)] by blast
  obtain data' where p: "place opts c m data = Inr data'"
    using assms(2) by (cases r) (simp_all add: place_def r and_then_simps)
  show ?thesis
    using assms(6,7) ac m p by (auto simp: add_records_Inr)
qed

section \<open>The steps of \<open>remove\<close> and of the store\<close>

lemma main_remove_eq:
  assumes "open_store P opts fs = Inr (file, data)" and "record_set data"
    and "opts ''code'' = Some c" and "truthy (Some c)"
  shows "main_remove P opts fs =
          (let filtered = filter (\<lambda>item. code_of item \<noteq> Some (json_of c)) data
           in if length filtered = length data
              then \<lparr>stored = fs, stdout = [], stderr = [NotFound (to_string c)], exitCode = 0\<rparr>
              else \<lparr>stored = saveMappings P fs file filtered, stdout = [Deleted (to_string c)],
                    stderr = [], exitCode = 0\<rparr>)"
  using assms
  by (simp add: main_remove_def remove_case_def and_then_simps catch_def filter_code_records Let_def)

lemma dropWhile_all: "(\<forall>x\<in>set (dropWhile P s). P x) \<longleftrightarrow> (\<forall>x\<in>set s. P x)"
proof (cases "dropWhile P s")
  case Nil
  then show ?thesis by (auto dest: set_dropWhileD)
next
  case (Cons y ys)
  with hd_dropWhile[of P s] have "\<not> P y" by simp
  moreover from Cons have "y \<in> set s"
    by (metis list.set_intros(1) set_dropWhileD)
  ultimately show ?thesis using Cons by auto
qed

lemma trim_empty: "trim s = [] \<longleftrightarrow> list_all js_space s"
  by (simp add: trim_def list_all_iff dropWhile_all)

section \<open>The locale option\<close>

lemma split_nonempty: "split sep s \<noteq> []"
  by (induction s) (auto split: list.splits)

lemma hd_split: "hd (split sep s) = takeWhile (\<lambda>c. c \<noteq> sep) s"
  by (induction s) (auto split: list.splits simp: split_nonempty)

lemma tl_split_empty: "tl (split sep s) = [] \<longleftrightarrow> sep \<notin> set s"
  by (induction s) (auto split: list.splits simp: split_nonempty)

lemma join_split: "join sep (split sep s) = s"
proof (induction s)
  case Nil
  then show ?case by simp
next
  case (Cons c cs)
  obtain p ps where p: "split sep cs = p # ps"
    using split_nonempty[of sep cs] by (cases "split sep cs") auto
  with Cons show ?case by (cases ps) auto
qed

lemma join_tl_split:
  "sep \<in> set s \<Longrightarrow> join sep (tl (split sep s)) = tl (dropWhile (\<lambda>c. c \<noteq> sep) s)"
proof (induction s)
  case Nil
  then show ?case by simp
next
  case (Cons c cs)
  obtain p ps where p: "split sep cs = p # ps"
    using split_nonempty[of sep cs] by (cases "split sep cs") auto
  show ?case
  proof (cases "c = sep")
    case True
    then show ?thesis using join_split[of sep cs] by simp
  next
    case False
    with Cons p show ?thesis by simp
  qed
qed

text \<open>Destructuring \<^verbatim>\<open>pair.split('=')\<close> and joining the rest cuts the pair at its first \<open>=\<close>.\<close>

lemma split_cut:
  "split sep s = lang # urlParts \<Longrightarrow>
     cut_first sep s = (if urlParts = [] then None else Some (lang, join sep urlParts))"
  using hd_split[of sep s] tl_split_empty[of sep s] join_tl_split[of sep s]
  by (auto simp: cut_first_def)

lemma parseLocales_loop_fold:
  "parseLocales_loop pairs m =
     foldl (\<lambda>acc kv. assign_str (fst kv) (snd kv) acc) m (locale_pairs pairs)"
proof (induction pairs arbitrary: m)
  case Nil
  then show ?case by simp
next
  case (Cons pair pairs)
  obtain lang urlParts where sp: "split CHR ''='' pair = lang # urlParts"
    using split_nonempty[of "CHR ''=''" pair] by (cases "split CHR ''='' pair") auto
  show ?case
    using Cons.IH by (simp add: sp split_cut[OF sp])
qed

lemma map_of_upsert: "map_of (upsert k v m) = (map_of m)(k \<mapsto> v)"
  by (induction m) auto

lemma map_of_assign_str:
  "map_of (assign_str k' v m) k =
     (if k' = ''__proto__'' then map_of m k else ((map_of m)(k' \<mapsto> JStr v)) k)"
  by (simp add: assign_str_def map_of_upsert)

lemma map_of_assign_fold:
  "map_of (foldl (\<lambda>acc kv. assign_str (fst kv) (snd kv) acc) m kvs) k =
     (if k = ''__proto__'' then map_of m k
      else case map_of (rev kvs) k of Some v \<Rightarrow> Some (JStr v) | None \<Rightarrow> map_of m k)"
proof (induction kvs arbitrary: m)
  case Nil
  then show ?case by simp
next
  case (Cons kv kvs)
  show ?case
    by (auto simp: Cons.IH map_of_assign_str map_add_def split: option.splits)
qed

text \<open>
  What \<open>parseLocales\<close> computes, exactly: the map of the specification, but for the tag
  \<^verbatim>\<open>__proto__\<close>, which never gets an entry.
\<close>

lemma parseLocales_map:
  assumes "input \<noteq> []"
  shows "\<exists>obj. parseLocales (Some (OStr input)) = Inr obj \<and>
           (\<forall>k. map_of obj k =
                 (if k = ''__proto__'' then None else map_option JStr (locale_map input k)))"
  using assms
  by (simp add: parseLocales_loop_fold map_of_assign_fold locale_map_def split: option.splits)

section \<open>The codec of the in-memory platform reads back what it prints\<close>


























section \<open>The properties\<close>

subsection \<open>Duplicate codes\<close>

text \<open>
  C1, as amended. On a record set that holds the code given with \<^verbatim>\<open>--code\<close>, and without
  \<^verbatim>\<open>--replace\<close>, \<open>add\<close> always fails (exit status 1) and writes nothing: every file is as
  it was. The error is DuplicateCode when the run gets as far as the uniqueness check, that
  is when \<^verbatim>\<open>--url\<close> is given and parses and the code matches \<^verbatim>\<open>[0-9A-Za-z_-]+\<close>; the
  guards before it report InvalidInput instead.
\<close>

theorem add_duplicate_code:
  assumes "open_store P opts fs = Inr (file, data)" and "record_set data"
    and "opts ''code'' = Some c" and "truthy (Some c)"
    and "Some (json_of c) \<in> set (codes data)"
    and "\<not> truthy (opts ''replace'')"
  shows "stored (main_add P opts fs) = fs \<and> stdout (main_add P opts fs) = []
       \<and> exitCode (main_add P opts fs) = 1
       \<and> (truthy (opts ''url'') \<and> isValidUrl P (or_empty (opts ''url'')) \<and> code_regex (to_string c)
            \<longrightarrow> stderr (main_add P opts fs) = [Failure (DuplicateCode (to_string c))])"
proof -
  from assms(3,4) have oe: "or_empty (opts ''code'') = c" by simp
  have eu: "ensureUnique c data = Inl (DuplicateCode (to_string c))"
    using assms(2,5) by (simp add: ensureUnique_def some_code_records and_then_simps)
  have ac: "add_code P opts data =
      (if code_regex (to_string c) then Inl (DuplicateCode (to_string c)) else Inl (InvalidInput CodeMalformed))"
    using assms(4,6) by (simp add: add_code_def oe eu and_then_simps)
  have "\<exists>e. add_records P opts data = Inl e
           \<and> (truthy (opts ''url'') \<and> isValidUrl P (or_empty (opts ''url'')) \<and> code_regex (to_string c)
                 \<longrightarrow> e = DuplicateCode (to_string c))"
    by (simp add: add_records_def Let_def ac and_then_simps)
  then obtain e where e: "add_records P opts data = Inl e"
    and d: "truthy (opts ''url'') \<and> isValidUrl P (or_empty (opts ''url'')) \<and> code_regex (to_string c)
                 \<longrightarrow> e = DuplicateCode (to_string c)" by blast
  from main_add_fails[OF assms(1) e] d show ?thesis by simp
qed

text \<open>
  \<^verbatim>\<open>add --url https://example.net/new --code promo1\<close> on the example store, which has a
  record \<^verbatim>\<open>promo1\<close>: the run fails with DuplicateCode and the file is untouched.
\<close>

theorem add_duplicate_code_witness:
  "open_store test_platform example_add example_files = Inr (''/repo/assets/mappings.json'', example_data)
 \<and> record_set example_data
 \<and> example_add ''code'' = Some (OStr ''promo1'')
 \<and> truthy (Some (OStr ''promo1''))
 \<and> Some (json_of (OStr ''promo1'')) \<in> set (codes example_data)
 \<and> \<not> truthy (example_add ''replace'')
 \<and> stored (main_add test_platform example_add example_files) = example_files
 \<and> exitCode (main_add test_platform example_add example_files) = 1
 \<and> stderr (main_add test_platform example_add example_files) = [Failure (DuplicateCode ''promo1'')]"
proof -
  have h1: "open_store test_platform example_add example_files
              = Inr (''/repo/assets/mappings.json'', example_data)" by code_simp
  have h2: "record_set example_data" by code_simp
  have h3: "example_add ''code'' = Some (OStr ''promo1'')" by code_simp
  have h4: "truthy (Some (OStr ''promo1''))" by simp
  have h5: "Some (json_of (OStr ''promo1'')) \<in> set (codes example_data)" by code_simp
  have h6: "\<not> truthy (example_add ''replace'')" by code_simp
  have h7: "truthy (example_add ''url'') \<and> isValidUrl test_platform (or_empty (example_add ''url''))
              \<and> code_regex (to_string (OStr ''promo1''))" by code_simp
  from add_duplicate_code[OF h1 h2 h3 h4 h5 h6] h7
  have "stored (main_add test_platform example_add example_files) = example_files
      \<and> exitCode (main_add test_platform example_add example_files) = 1
      \<and> stderr (main_add test_platform example_add example_files) = [Failure (DuplicateCode ''promo1'')]"
    by simp
  with h1 h2 h3 h4 h5 h6 show ?thesis by blast
qed

text \<open>
  C1 as stated fails. \<^verbatim>\<open>add --code promo1\<close>, with no \<^verbatim>\<open>--url\<close>, is an add with an explicit
  code that occurs in the set and without \<^verbatim>\<open>--replace\<close>; \<open>main\<close> checks the URL first and
  the run fails with InvalidInput, not with DuplicateCode.
\<close>

theorem add_duplicate_code_counterexample:
  "open_store test_platform example_add_no_url example_files
     = Inr (''/repo/assets/mappings.json'', example_data)
 \<and> record_set example_data
 \<and> example_add_no_url ''code'' = Some (OStr ''promo1'')
 \<and> Some (JStr ''promo1'') \<in> set (codes example_data)
 \<and> \<not> truthy (example_add_no_url ''replace'')
 \<and> stderr (main_add test_platform example_add_no_url example_files)
     = [Failure (InvalidInput UrlMissing)]
 \<and> stderr (main_add test_platform example_add_no_url example_files)
     \<noteq> [Failure (DuplicateCode ''promo1'')]"
  by code_simp

subsection \<open>Replace mode\<close>

text \<open>
  C2. When \<open>add\<close> runs with \<^verbatim>\<open>--replace\<close> and succeeds, the run stores the new record set
  \<open>data'\<close>, and: if a record of the set has the new record's code, \<open>data'\<close> is the old set
  with the new record written over the first such record, at its position, every other
  position unchanged; if none has it, \<open>data'\<close> is the old set with the new record appended.
  (When such a run succeeds: lemma \<open>add_replace_succeeds\<close>.)
\<close>

theorem add_replace_in_place:
  assumes "open_store P opts fs = Inr (file, data)"
    and "truthy (opts ''replace'')"
    and "add_records P opts data = Inr (code, url, mapping, data')"
  shows "main_add P opts fs =
           \<lparr>stored = saveMappings P fs file data',
            stdout = [Written (to_string code) (to_string url)], stderr = [], exitCode = 0\<rparr>
       \<and> code_of mapping = Some (json_of code)
       \<and> (Some (json_of code) \<in> set (codes data) \<longrightarrow>
            (\<exists>i<length data. code_of (data ! i) = Some (json_of code)
                \<and> (\<forall>j<i. code_of (data ! j) \<noteq> Some (json_of code))
                \<and> data' = data[i := mapping]))
       \<and> (Some (json_of code) \<notin> set (codes data) \<longrightarrow> data' = data @ [mapping])"
proof -
  from assms(3) have m: "code_of mapping = Some (json_of code)"
    and p: "place opts code mapping data = Inr data'"
    by (auto simp: add_records_Inr dest: new_mapping_code)
  from place_cases[OF p] assms(2)
  have "(\<exists>k<length data. code_of (data ! k) = Some (json_of code)
            \<and> (\<forall>j<k. code_of (data ! j) \<noteq> Some (json_of code)) \<and> data' = data[k := mapping])
        \<or> (data' = data @ [mapping] \<and> Some (json_of code) \<notin> set (codes data))"
    by blast
  then have "(Some (json_of code) \<in> set (codes data) \<longrightarrow>
            (\<exists>i<length data. code_of (data ! i) = Some (json_of code)
                \<and> (\<forall>j<i. code_of (data ! j) \<noteq> Some (json_of code))
                \<and> data' = data[i := mapping]))
       \<and> (Some (json_of code) \<notin> set (codes data) \<longrightarrow> data' = data @ [mapping])"
    using code_in_codes[of _ data "Some (json_of code)"] by blast
  with m main_add_saves[OF assms(1,3)] show ?thesis by simp
qed

text \<open>
  \<^verbatim>\<open>add --url https://example.net/new --code promo1 --replace\<close> on the example store: the
  new record takes the place of the first record, \<^verbatim>\<open>docs\<close> stays second.
\<close>

theorem add_replace_in_place_witness:
  "open_store test_platform example_add_replace example_files
     = Inr (''/repo/assets/mappings.json'', example_data)
 \<and> truthy (example_add_replace ''replace'')
 \<and> add_records test_platform example_add_replace example_data
     = Inr (OStr ''promo1'', OStr ''https://example.net/new'', example_mapping ''promo1'',
            [example_mapping ''promo1'',
             JObj [(''code'', JStr ''docs''), (''url'', JStr ''https://example.org/docs'')]])
 \<and> main_add test_platform example_add_replace example_files =
      \<lparr>stored = saveMappings test_platform example_files ''/repo/assets/mappings.json''
                  [example_mapping ''promo1'',
                   JObj [(''code'', JStr ''docs''), (''url'', JStr ''https://example.org/docs'')]],
       stdout = [Written ''promo1'' ''https://example.net/new''], stderr = [], exitCode = 0\<rparr>"
proof -
  have h1: "open_store test_platform example_add_replace example_files
              = Inr (''/repo/assets/mappings.json'', example_data)" by code_simp
  have h2: "truthy (example_add_replace ''replace'')" by code_simp
  have h3: "add_records test_platform example_add_replace example_data
     = Inr (OStr ''promo1'', OStr ''https://example.net/new'', example_mapping ''promo1'',
            [example_mapping ''promo1'',
             JObj [(''code'', JStr ''docs''), (''url'', JStr ''https://example.org/docs'')]])"
    by code_simp
  from add_replace_in_place[OF h1 h2 h3]
  have "main_add test_platform example_add_replace example_files =
      \<lparr>stored = saveMappings test_platform example_files ''/repo/assets/mappings.json''
                  [example_mapping ''promo1'',
                   JObj [(''code'', JStr ''docs''), (''url'', JStr ''https://example.org/docs'')]],
       stdout = [Written ''promo1'' ''https://example.net/new''], stderr = [], exitCode = 0\<rparr>"
    by simp
  with h1 h2 h3 show ?thesis by blast
qed

subsection \<open>Codes stay unique\<close>

text \<open>
  C3. If the codes of a record set are pairwise distinct and \<open>add\<close> succeeds on it, with or
  without \<^verbatim>\<open>--replace\<close>, with a given or a generated code, then the codes of the record set
  it stores are pairwise distinct.
\<close>

theorem add_keeps_codes_distinct:
  assumes "open_store P opts fs = Inr (file, data)"
    and "distinct (codes data)"
    and "add_records P opts data = Inr (code, url, mapping, data')"
  shows "stored (main_add P opts fs) = saveMappings P fs file data' \<and> distinct (codes data')"
proof -
  from assms(3) have c: "add_code P opts data = Inr code"
    and m: "code_of mapping = Some (json_of code)"
    and p: "place opts code mapping data = Inr data'"
    by (auto simp: add_records_Inr dest: new_mapping_code)
  from place_cases[OF p] have "distinct (codes data')"
  proof
    assume "truthy (opts ''replace'') \<and>
      (\<exists>k<length data. code_of (data ! k) = Some (json_of code)
          \<and> (\<forall>j<k. code_of (data ! j) \<noteq> Some (json_of code)) \<and> data' = data[k := mapping])"
    with m assms(2) show ?thesis by (auto simp: codes_update)
  next
    assume a: "data' = data @ [mapping]
        \<and> (truthy (opts ''replace'') \<longrightarrow> Some (json_of code) \<notin> set (codes data))"
    have "Some (json_of code) \<notin> set (codes data)"
      using a add_code_fresh[OF _ c] by blast
    with a m assms(2) show ?thesis by (simp add: codes_def)
  qed
  with main_add_saves[OF assms(1,3)] show ?thesis by simp
qed

text \<open>\<^verbatim>\<open>add --url https://example.net/new\<close> on the example store, the code generated.\<close>

theorem add_keeps_codes_distinct_witness:
  "open_store test_platform example_add_random example_files
     = Inr (''/repo/assets/mappings.json'', example_data)
 \<and> distinct (codes example_data)
 \<and> add_records test_platform example_add_random example_data
     = Inr (OStr ''23456'', OStr ''https://example.net/new'', example_mapping ''23456'',
            example_data @ [example_mapping ''23456''])
 \<and> distinct (codes (example_data @ [example_mapping ''23456'']))"
proof -
  have h1: "open_store test_platform example_add_random example_files
              = Inr (''/repo/assets/mappings.json'', example_data)" by code_simp
  have h2: "distinct (codes example_data)" by code_simp
  have h3: "add_records test_platform example_add_random example_data
     = Inr (OStr ''23456'', OStr ''https://example.net/new'', example_mapping ''23456'',
            example_data @ [example_mapping ''23456''])" by code_simp
  from add_keeps_codes_distinct[OF h1 h2 h3]
  have "distinct (codes (example_data @ [example_mapping ''23456'']))" by blast
  with h1 h2 h3 show ?thesis by blast
qed

subsection \<open>Generated codes\<close>

text \<open>
  C4. When \<open>add\<close> is given no code and succeeds, the code of the new record is a string of
  length 5, each of its characters is in the class \<^verbatim>\<open>[0-9A-Za-z_-]\<close>, and no record of the
  prior set has it; the new record is appended and the run stores the new set.
\<close>

theorem add_generates_fresh_code:
  assumes "open_store P opts fs = Inr (file, data)"
    and "\<not> truthy (opts ''code'')"
    and "add_records P opts data = Inr (code, url, mapping, data')"
  shows "\<exists>c. code = OStr c \<and> code_of mapping = Some (JStr c)
           \<and> Some (JStr c) \<notin> set (codes data) \<and> length c = 5 \<and> list_all code_char c
           \<and> data' = data @ [mapping]
           \<and> stored (main_add P opts fs) = saveMappings P fs file data'"
proof -
  from assms(3) have ac: "add_code P opts data = Inr code"
    and m: "code_of mapping = Some (json_of code)"
    and p: "place opts code mapping data = Inr data'"
    by (auto simp: add_records_Inr dest: new_mapping_code)
  from add_code_generated[OF assms(2) ac] obtain c where c: "code = OStr c"
    and g: "getRandomCode (Math_random P) data = Inr c" by blast
  from getRandomCode_Inr[OF g] have fresh: "Some (JStr c) \<notin> set (codes data)"
    and shape: "length c = 5 \<and> list_all code_char c" by simp_all
  from place_cases[OF p] fresh c have "data' = data @ [mapping]"
    using code_in_codes[of _ data "Some (JStr c)"] by auto
  with c m fresh shape main_add_saves[OF assms(1,3)] show ?thesis by simp
qed

text \<open>The same run: the draws \<open>0, 1, 2, 3, 4\<close> spell the code \<^verbatim>\<open>23456\<close>.\<close>

theorem add_generates_fresh_code_witness:
  "open_store test_platform example_add_random example_files
     = Inr (''/repo/assets/mappings.json'', example_data)
 \<and> \<not> truthy (example_add_random ''code'')
 \<and> add_records test_platform example_add_random example_data
     = Inr (OStr ''23456'', OStr ''https://example.net/new'', example_mapping ''23456'',
            example_data @ [example_mapping ''23456''])
 \<and> (\<exists>c. OStr ''23456'' = OStr c \<and> code_of (example_mapping ''23456'') = Some (JStr c)
        \<and> Some (JStr c) \<notin> set (codes example_data) \<and> length c = 5 \<and> list_all code_char c)"
proof -
  have h1: "open_store test_platform example_add_random example_files
              = Inr (''/repo/assets/mappings.json'', example_data)" by code_simp
  have h2: "\<not> truthy (example_add_random ''code'')" by code_simp
  have h3: "add_records test_platform example_add_random example_data
     = Inr (OStr ''23456'', OStr ''https://example.net/new'', example_mapping ''23456'',
            example_data @ [example_mapping ''23456''])" by code_simp
  from add_generates_fresh_code[OF h1 h2 h3]
  have "\<exists>c. OStr ''23456'' = OStr c \<and> code_of (example_mapping ''23456'') = Some (JStr c)
        \<and> Some (JStr c) \<notin> set (codes example_data) \<and> length c = 5 \<and> list_all code_char c"
    by blast
  with h1 h2 h3 show ?thesis by blast
qed

subsection \<open>The store\<close>




text \<open>
  C6. \<open>loadMappings\<close> returns the empty record set when the file is absent and when its
  content is white space only (the empty content included). On any other content it
  returns the items of the array when the content parses to a JSON array, and fails with
  the ParseError that names the file and the cause otherwise: the parser's message when
  the content is malformed, "must be an array" when it parses to anything else.
\<close>

theorem loadMappings_cases:
  "(fs file = None \<longrightarrow> loadMappings P fs file = Inr [])
 \<and> (\<forall>raw. fs file = Some raw \<and> list_all js_space raw \<longrightarrow> loadMappings P fs file = Inr [])
 \<and> (\<forall>raw items. fs file = Some raw \<and> \<not> list_all js_space raw \<and> JSON_parse P raw = Inr (JArr items)
        \<longrightarrow> loadMappings P fs file = Inr items)
 \<and> (\<forall>raw msg. fs file = Some raw \<and> \<not> list_all js_space raw \<and> JSON_parse P raw = Inl msg
        \<longrightarrow> loadMappings P fs file = Inl (ParseError file (SyntaxError msg)))
 \<and> (\<forall>raw v. fs file = Some raw \<and> \<not> list_all js_space raw \<and> JSON_parse P raw = Inr v
               \<and> (\<forall>items. v \<noteq> JArr items)
        \<longrightarrow> loadMappings P fs file = Inl (ParseError file NotAnArray))"
proof (intro conjI allI impI)
  fix raw v
  assume a: "fs file = Some raw \<and> \<not> list_all js_space raw \<and> JSON_parse P raw = Inr v
               \<and> (\<forall>items. v \<noteq> JArr items)"
  then show "loadMappings P fs file = Inl (ParseError file NotAnArray)"
    by (cases v) (simp_all add: loadMappings_def trim_empty)
qed (simp_all add: loadMappings_def trim_empty)

text \<open>
  One file for each case: none, a blank one, the example store, a malformed text and a
  JSON object.
\<close>

theorem loadMappings_cases_witness:
  "loadMappings test_platform Map.empty ''m.json'' = Inr []
 \<and> loadMappings test_platform [''m.json'' \<mapsto> [CHR 0x20, CHR 0x0A]] ''m.json'' = Inr []
 \<and> loadMappings test_platform example_files ''/repo/assets/mappings.json'' = Inr example_data
 \<and> loadMappings test_platform [''m.json'' \<mapsto> ''{oops''] ''m.json''
      = Inl (ParseError ''m.json'' (SyntaxError ''Unexpected token''))
 \<and> loadMappings test_platform [''m.json'' \<mapsto> ''{}''] ''m.json''
      = Inl (ParseError ''m.json'' NotAnArray)"
proof -
  have a: "loadMappings test_platform Map.empty ''m.json'' = Inr []"
    using loadMappings_cases[of Map.empty "''m.json''" test_platform] by simp
  have "[''m.json'' \<mapsto> [CHR 0x20, CHR 0x0A]] ''m.json'' = Some [CHR 0x20, CHR 0x0A]
        \<and> list_all js_space [CHR 0x20, CHR 0x0A]" by code_simp
  then have b: "loadMappings test_platform [''m.json'' \<mapsto> [CHR 0x20, CHR 0x0A]] ''m.json'' = Inr []"
    using loadMappings_cases[of "[''m.json'' \<mapsto> [CHR 0x20, CHR 0x0A]]" "''m.json''" test_platform]
    by blast
  have "example_files ''/repo/assets/mappings.json''
          = Some (stringify 0 (JArr example_data) @ [CHR 0x0A])
        \<and> \<not> list_all js_space (stringify 0 (JArr example_data) @ [CHR 0x0A])
        \<and> JSON_parse test_platform (stringify 0 (JArr example_data) @ [CHR 0x0A])
            = Inr (JArr example_data)" by code_simp
  then have c: "loadMappings test_platform example_files ''/repo/assets/mappings.json''
                  = Inr example_data"
    using loadMappings_cases[of example_files "''/repo/assets/mappings.json''" test_platform]
    by blast
  have "[''m.json'' \<mapsto> ''{oops''] ''m.json'' = Some ''{oops''
        \<and> \<not> list_all js_space ''{oops''
        \<and> JSON_parse test_platform ''{oops'' = Inl ''Unexpected token''" by code_simp
  then have d: "loadMappings test_platform [''m.json'' \<mapsto> ''{oops''] ''m.json''
                  = Inl (ParseError ''m.json'' (SyntaxError ''Unexpected token''))"
    using loadMappings_cases[of "[''m.json'' \<mapsto> ''{oops'']" "''m.json''" test_platform]
    by blast
  have "[''m.json'' \<mapsto> ''{}''] ''m.json'' = Some ''{}''
        \<and> \<not> list_all js_space ''{}''
        \<and> JSON_parse test_platform ''{}'' = Inr (JObj [])" by code_simp
  moreover have "\<forall>items. JObj [] \<noteq> JArr items" by simp
  ultimately have e: "loadMappings test_platform [''m.json'' \<mapsto> ''{}''] ''m.json''
                  = Inl (ParseError ''m.json'' NotAnArray)"
    using loadMappings_cases[of "[''m.json'' \<mapsto> ''{}'']" "''m.json''" test_platform]
    by blast
  from a b c d e show ?thesis by blast
qed

subsection \<open>Removing\<close>

text \<open>
  C7. On a record set that does not hold the code given to \<open>remove\<close>, the run writes
  nothing (every file is as it was, so the store is unchanged byte for byte), prints the
  missing code in one message on the error stream, and ends with exit status 0.
\<close>

theorem remove_missing_code:
  assumes "open_store P opts fs = Inr (file, data)" and "record_set data"
    and "opts ''code'' = Some c" and "truthy (Some c)"
    and "Some (json_of c) \<notin> set (codes data)"
  shows "main_remove P opts fs =
           \<lparr>stored = fs, stdout = [], stderr = [NotFound (to_string c)], exitCode = 0\<rparr>"
  using assms(5) by (simp add: main_remove_eq[OF assms(1-4)] filter_keeps_all)

text \<open>\<^verbatim>\<open>remove --code nope\<close> on the example store.\<close>

theorem remove_missing_code_witness:
  "open_store test_platform example_remove_nope example_files
     = Inr (''/repo/assets/mappings.json'', example_data)
 \<and> record_set example_data
 \<and> example_remove_nope ''code'' = Some (OStr ''nope'')
 \<and> truthy (Some (OStr ''nope''))
 \<and> Some (json_of (OStr ''nope'')) \<notin> set (codes example_data)
 \<and> main_remove test_platform example_remove_nope example_files =
      \<lparr>stored = example_files, stdout = [], stderr = [NotFound ''nope''], exitCode = 0\<rparr>"
proof -
  have h1: "open_store test_platform example_remove_nope example_files
              = Inr (''/repo/assets/mappings.json'', example_data)" by code_simp
  have h2: "record_set example_data" by code_simp
  have h3: "example_remove_nope ''code'' = Some (OStr ''nope'')" by code_simp
  have h4: "truthy (Some (OStr ''nope''))" by simp
  have h5: "Some (json_of (OStr ''nope'')) \<notin> set (codes example_data)" by code_simp
  from remove_missing_code[OF h1 h2 h3 h4 h5]
  have "main_remove test_platform example_remove_nope example_files =
      \<lparr>stored = example_files, stdout = [], stderr = [NotFound ''nope''], exitCode = 0\<rparr>"
    by simp
  with h1 h2 h3 h4 h5 show ?thesis by blast
qed

text \<open>
  C10. On a record set that holds the code given to \<open>remove\<close>, the run overwrites the
  mapping file with the text of the set without every record of that code, the other
  records in the order they had, and a line feed; no other file changes. No record of the
  set it wrote has the code. It prints the confirmation and ends with exit status 0.
\<close>

theorem remove_present_code:
  assumes "open_store P opts fs = Inr (file, data)" and "record_set data"
    and "opts ''code'' = Some c" and "truthy (Some c)"
    and "Some (json_of c) \<in> set (codes data)"
  shows "main_remove P opts fs =
           \<lparr>stored = fs(file \<mapsto>
                JSON_stringify P (JArr (filter (\<lambda>item. code_of item \<noteq> Some (json_of c)) data))
                  @ [CHR 0x0A]),
            stdout = [Deleted (to_string c)], stderr = [], exitCode = 0\<rparr>
       \<and> stored (main_remove P opts fs) file =
           Some (JSON_stringify P (JArr (filter (\<lambda>item. code_of item \<noteq> Some (json_of c)) data))
                   @ [CHR 0x0A])
       \<and> Some (json_of c) \<notin> set (codes (filter (\<lambda>item. code_of item \<noteq> Some (json_of c)) data))"
proof -
  have "Some (json_of c) \<notin> set (codes (filter (\<lambda>item. code_of item \<noteq> Some (json_of c)) data))"
    by (auto simp: codes_def)
  with assms(5) show ?thesis
    by (simp add: main_remove_eq[OF assms(1-4)] filter_keeps_all saveMappings_def)
qed

text \<open>
  \<^verbatim>\<open>remove --code docs\<close> on a store that holds \<^verbatim>\<open>docs\<close> twice, around \<^verbatim>\<open>promo1\<close>: both go,
  and the file holds the text of the one record that is left.
\<close>

theorem remove_present_code_witness:
  "open_store test_platform example_remove_docs example_files_twice
     = Inr (''/repo/assets/mappings.json'', example_data_twice)
 \<and> record_set example_data_twice
 \<and> example_remove_docs ''code'' = Some (OStr ''docs'')
 \<and> truthy (Some (OStr ''docs''))
 \<and> Some (json_of (OStr ''docs'')) \<in> set (codes example_data_twice)
 \<and> filter (\<lambda>item. code_of item \<noteq> Some (json_of (OStr ''docs''))) example_data_twice
     = [JObj [(''code'', JStr ''promo1''), (''url'', JStr ''https://example.com'')]]
 \<and> stored (main_remove test_platform example_remove_docs example_files_twice)
       ''/repo/assets/mappings.json''
     = Some (stringify 0
               (JArr [JObj [(''code'', JStr ''promo1''), (''url'', JStr ''https://example.com'')]])
             @ [CHR 0x0A])
 \<and> stdout (main_remove test_platform example_remove_docs example_files_twice) = [Deleted ''docs'']
 \<and> exitCode (main_remove test_platform example_remove_docs example_files_twice) = 0"
proof -
  have h1: "open_store test_platform example_remove_docs example_files_twice
              = Inr (''/repo/assets/mappings.json'', example_data_twice)" by code_simp
  have h2: "record_set example_data_twice" by code_simp
  have h3: "example_remove_docs ''code'' = Some (OStr ''docs'')" by code_simp
  have h4: "truthy (Some (OStr ''docs''))" by simp
  have h5: "Some (json_of (OStr ''docs'')) \<in> set (codes example_data_twice)" by code_simp
  have f: "filter (\<lambda>item. code_of item \<noteq> Some (json_of (OStr ''docs''))) example_data_twice
     = [JObj [(''code'', JStr ''promo1''), (''url'', JStr ''https://example.com'')]]" by code_simp
  have p: "JSON_stringify test_platform = stringify 0" by (simp add: test_platform_def)
  from remove_present_code[OF h1 h2 h3 h4 h5]
  have "stored (main_remove test_platform example_remove_docs example_files_twice)
       ''/repo/assets/mappings.json''
     = Some (stringify 0
               (JArr [JObj [(''code'', JStr ''promo1''), (''url'', JStr ''https://example.com'')]])
             @ [CHR 0x0A])
   \<and> stdout (main_remove test_platform example_remove_docs example_files_twice) = [Deleted ''docs'']
   \<and> exitCode (main_remove test_platform example_remove_docs example_files_twice) = 0"
    unfolding f p by simp
  with h1 h2 h3 h4 h5 f show ?thesis by blast
qed

subsection \<open>Exhausting the generator\<close>

text \<open>
  C8. On a record set, \<open>getRandomCode\<close> looks at the candidates \<open>0\<close> to \<open>9999\<close> only: its
  result depends on no draw after the first 50000, five for each candidate. If each of
  the 10000 candidates is the code of a record, it fails with GenerationExhausted (whose
  message tells the caller to give \<^verbatim>\<open>--code\<close>); otherwise it returns the first candidate
  that is no record's code.
\<close>

theorem getRandomCode_bounded:
  assumes "record_set existing"
  shows "((\<forall>i<10000. Some (JStr (candidate rnd i)) \<in> set (codes existing)) \<longrightarrow>
            getRandomCode rnd existing = Inl GenerationExhausted)
       \<and> (\<forall>i<10000. Some (JStr (candidate rnd i)) \<notin> set (codes existing) \<and>
                      (\<forall>j<i. Some (JStr (candidate rnd j)) \<in> set (codes existing)) \<longrightarrow>
            getRandomCode rnd existing = Inr (candidate rnd i))
       \<and> (\<forall>rnd'. (\<forall>k<50000. rnd k = rnd' k) \<longrightarrow>
            getRandomCode rnd' existing = getRandomCode rnd existing)"
  using getRandomCode_exhausted[OF assms, of rnd] getRandomCode_first[OF assms, of _ rnd]
    getRandomCode_draws[OF assms, of rnd]
  by blast

text \<open>
  A store that holds \<^verbatim>\<open>23456\<close> and \<^verbatim>\<open>22222\<close>. With the draws \<open>0, 1, 2, \<dots>\<close> the first
  candidate, \<^verbatim>\<open>23456\<close>, collides and the second, \<^verbatim>\<open>789ab\<close>, is returned. With every draw
  \<open>0\<close> every candidate is \<^verbatim>\<open>22222\<close> and the generator gives up.
\<close>

theorem getRandomCode_bounded_witness:
  "record_set example_data_taken
 \<and> Some (JStr (candidate (\<lambda>k. k) 0)) \<in> set (codes example_data_taken)
 \<and> Some (JStr (candidate (\<lambda>k. k) 1)) \<notin> set (codes example_data_taken)
 \<and> getRandomCode (\<lambda>k. k) example_data_taken = Inr ''789ab''
 \<and> getRandomCode (\<lambda>k. 0) example_data_taken = Inl GenerationExhausted"
proof -
  have h: "record_set example_data_taken" by code_simp
  have c0: "Some (JStr (candidate (\<lambda>k. k) 0)) \<in> set (codes example_data_taken)" by code_simp
  have c1: "Some (JStr (candidate (\<lambda>k. k) 1)) \<notin> set (codes example_data_taken)" by code_simp
  have v: "candidate (\<lambda>k. k) 1 = ''789ab''" by code_simp
  from c0 have before: "\<forall>j<1. Some (JStr (candidate (\<lambda>k. k) j)) \<in> set (codes example_data_taken)"
    by simp
  have "(1::nat) < 10000" by simp
  with getRandomCode_bounded[OF h, of "\<lambda>k. k"] c1 before
  have "getRandomCode (\<lambda>k. k) example_data_taken = Inr (candidate (\<lambda>k. k) 1)"
    by blast
  with v have first: "getRandomCode (\<lambda>k. k) example_data_taken = Inr ''789ab''" by simp
  have "candidate (\<lambda>k. 0) i = ''22222''" for i
    by (simp add: candidate_eq base62Safe_def upt_rec)
  moreover have "Some (JStr ''22222'') \<in> set (codes example_data_taken)" by code_simp
  ultimately have "\<forall>i<10000. Some (JStr (candidate (\<lambda>k. 0) i)) \<in> set (codes example_data_taken)"
    by simp
  with getRandomCode_bounded[OF h, of "\<lambda>k. 0"]
  have "getRandomCode (\<lambda>k. 0) example_data_taken = Inl GenerationExhausted" by blast
  with h c0 c1 first show ?thesis by blast
qed

subsection \<open>Locales\<close>

text \<open>
  C9, at the input where the tool departs from it. The option
  \<^verbatim>\<open>--locale __proto__=https://x.example\<close> is one pair with a tag and a URL, and the map of
  the specification has the entry for it; \<open>parseLocales\<close> returns the empty object, since
  the assignment \<^verbatim>\<open>map['__proto__']=...\<close> stores nothing. (For every other tag the two
  agree: lemma \<open>parseLocales_map\<close>.)
\<close>

theorem parseLocales_drops_proto:
  "parseLocales (Some (OStr ''__proto__=https://x.example'')) = Inr []
 \<and> locale_map ''__proto__=https://x.example'' ''__proto__'' = Some ''https://x.example''"
  by code_simp

end
